theory Spec2Isabelle
  imports Main
begin

section \<open>NMEA-0183 sentence decoder: embedding of gps.py, run.py and nmea.py\<close>

text \<open>
  The decoder works on Python strings. A frame is modelled as a \<^typ>\<open>string\<close>; the protocol
  is ASCII (\<^verbatim>\<open>ENCODING = "ascii"\<close>), so one \<^typ>\<open>char\<close> is one Python character.
  Every exception the source can raise is a value of \<open>error\<close>: the two exception classes of
  gps.py, with their message, and the interpreter's own \<^verbatim>\<open>IndexError\<close> for an index out of
  range. A constructor returns \<open>error + record\<close>, with \<open>Inl\<close> for a raised exception.
\<close>

subsection \<open>Exceptions\<close>

datatype error =
    GPSFormatError string
  | GPSTypeError string
  | IndexError

fun isFormatError :: "error + 'a \<Rightarrow> bool" where
  "isFormatError (Inl (GPSFormatError m)) = True"
| "isFormatError r = False"

fun isTypeError :: "error + 'a \<Rightarrow> bool" where
  "isTypeError (Inl (GPSTypeError m)) = True"
| "isTypeError r = False"

subsection \<open>Python primitives used by the decoder\<close>

text \<open>\<^verbatim>\<open>xs[i]\<close> for a constant \<open>i \<ge> 0\<close>: raises \<^verbatim>\<open>IndexError\<close> out of range.\<close>

definition index :: "'a list \<Rightarrow> nat \<Rightarrow> error + 'a" where
  "index xs i = (if i < length xs then Inr (xs ! i) else Inl IndexError)"

text \<open>\<^verbatim>\<open>xs[a:b]\<close> for constants \<open>0 \<le> a \<le> b\<close>: never raises, truncates at the end.\<close>

definition slice :: "'a list \<Rightarrow> nat \<Rightarrow> nat \<Rightarrow> 'a list" where
  "slice xs a b = take (b - a) (drop a xs)"

text \<open>
  \<^verbatim>\<open>s.rpartition(c)\<close> for a one-character separator: the part before the last \<open>c\<close>, the
  separator, the part after it; \<^verbatim>\<open>('', '', s)\<close> when \<open>c\<close> does not occur.
\<close>

definition rpartition :: "string \<Rightarrow> char \<Rightarrow> string \<times> string \<times> string" where
  "rpartition s c =
     (if c \<in> set s
      then (rev (tl (dropWhile (\<lambda>x. x \<noteq> c) (rev s))), [c],
            rev (takeWhile (\<lambda>x. x \<noteq> c) (rev s)))
      else ([], [], s))"

text \<open>\<^verbatim>\<open>s.split(c)\<close> for a one-character separator: empty fields are kept, \<^verbatim>\<open>''.split(',')\<close> is \<^verbatim>\<open>['']\<close>.\<close>

fun str_split :: "string \<Rightarrow> char \<Rightarrow> string list" where
  "str_split [] c = [[]]"
| "str_split (x # xs) c =
     (if x = c then [] # str_split xs c
      else (case str_split xs c of
              [] \<Rightarrow> [[x]]
            | w # ws \<Rightarrow> (x # w) # ws))"

text \<open>\<^verbatim>\<open>str(n)\<close> for \<open>n \<ge> 0\<close>, as \<^verbatim>\<open>"{}".format(len(frame))\<close> renders it.\<close>

fun str_nat :: "nat \<Rightarrow> string" where
  "str_nat n =
     (if n < 10 then [char_of (48 + n)]
      else str_nat (n div 10) @ [char_of (48 + n mod 10)])"

declare str_nat.simps [simp del]

subsection \<open>BaseGPS\<close>

abbreviation (input) SEP :: char where "SEP \<equiv> CHR '',''"

abbreviation (input) IDX_REC_ID_S :: nat where "IDX_REC_ID_S \<equiv> 0"
abbreviation (input) IDX_REC_ID_E :: nat where "IDX_REC_ID_E \<equiv> 2"
abbreviation (input) IDX_FRAME_TYPE_S :: nat where "IDX_FRAME_TYPE_S \<equiv> 2"
abbreviation (input) IDX_FRAME_TYPE_E :: nat where "IDX_FRAME_TYPE_E \<equiv> 5"

text \<open>\<^verbatim>\<open>list(BaseGPS.FRAME_TYPE.keys())\<close>, in the dictionary's insertion order.\<close>

definition FRAME_TYPE_keys :: "string list" where
  "FRAME_TYPE_keys = [''GGA'', ''GLL'', ''GSA'', ''GSV'', ''VTG'', ''RMC'']"

record BaseGPS =
  data :: "string list"
  receiver :: string
  type :: string

text \<open>
  \<^verbatim>\<open>BaseGPS._split\<close>: drop the last \<open>*\<close> and what follows it, delete every remaining
  \<open>*\<close> and \<open>$\<close> (\<^verbatim>\<open>re.sub(r'[*$]', '', frame)\<close>), split at the commas.
\<close>

definition BaseGPS_split :: "string \<Rightarrow> string list" where
  "BaseGPS_split frame =
     (let frame1 = (if CHR ''*'' \<in> set frame then fst (rpartition frame (CHR ''*'')) else frame);
          frame2 = filter (\<lambda>x. x \<noteq> CHR ''*'' \<and> x \<noteq> CHR ''$'') frame1
      in str_split frame2 SEP)"

text \<open>
  \<^verbatim>\<open>BaseGPS.__init__\<close>. \<^verbatim>\<open>frame[0]\<close> raises \<^verbatim>\<open>IndexError\<close> on the empty string, and so
  would \<^verbatim>\<open>self.data[0]\<close> on an empty list; the two slices of the first field never raise.
\<close>

definition BaseGPS_init :: "string \<Rightarrow> error + BaseGPS" where
  "BaseGPS_init frame =
     (case index frame 0 of
        Inl e \<Rightarrow> Inl e
      | Inr c \<Rightarrow>
          if c \<noteq> CHR ''$''
          then Inl (GPSFormatError (''Lenght error : '' @ str_nat (length frame)))
          else
            (let d = BaseGPS_split frame in
             (case index d 0 of
                Inl e \<Rightarrow> Inl e
              | Inr d0 \<Rightarrow>
                  Inr \<lparr>BaseGPS.data = d,
                       BaseGPS.receiver = slice d0 IDX_REC_ID_S IDX_REC_ID_E,
                       BaseGPS.type = slice d0 IDX_FRAME_TYPE_S IDX_FRAME_TYPE_E\<rparr>)))"

text \<open>
  Every subclass constructor starts with \<^verbatim>\<open>super().__init__(frame)\<close> and then reads
  \<^verbatim>\<open>self.data\<close> at fixed positions. \<open>bind\<close> sequences two steps that may raise: the second
  runs only when the first returned.
\<close>

definition bind :: "error + 'a \<Rightarrow> ('a \<Rightarrow> error + 'b) \<Rightarrow> error + 'b" where
  "bind m f = (case m of Inl e \<Rightarrow> Inl e | Inr v \<Rightarrow> f v)"

subsection \<open>GPSGGA\<close>

record GPSGGA = BaseGPS +
  time :: string
  lattitude :: "string list"
  longitude :: "string list"
  quality :: string
  sattelites :: string
  altitude :: "string list"
  checksum :: string

abbreviation (input) GPSGGA_TYPE :: string where "GPSGGA_TYPE \<equiv> ''GGA''"
abbreviation (input) GPSGGA_IDX_TIME :: nat where "GPSGGA_IDX_TIME \<equiv> 1"
abbreviation (input) GPSGGA_IDX_LAT :: "nat \<times> nat" where "GPSGGA_IDX_LAT \<equiv> (2, 4)"
abbreviation (input) GPSGGA_IDX_LONG :: "nat \<times> nat" where "GPSGGA_IDX_LONG \<equiv> (4, 6)"
abbreviation (input) GPSGGA_IDX_QUAL :: nat where "GPSGGA_IDX_QUAL \<equiv> 6"
abbreviation (input) GPSGGA_IDX_SAT :: nat where "GPSGGA_IDX_SAT \<equiv> 7"
abbreviation (input) GPSGGA_IDX_ALT :: "nat \<times> nat" where "GPSGGA_IDX_ALT \<equiv> (8, 10)"

definition GPSGGA_init :: "string \<Rightarrow> error + GPSGGA" where
  "GPSGGA_init frame =
     bind (BaseGPS_init frame) (\<lambda>b.
       if BaseGPS.type b \<notin> set FRAME_TYPE_keys
       then (if BaseGPS.type b \<noteq> GPSGGA_TYPE
             then Inl (GPSTypeError (''not '' @ GPSGGA_TYPE @ '' type''))
             else Inl (GPSFormatError (BaseGPS.type b @ '' type is not support'')))
       else
         (let d = BaseGPS.data b in
          bind (index d GPSGGA_IDX_TIME) (\<lambda>v_time.
          bind (index d GPSGGA_IDX_QUAL) (\<lambda>v_quality.
          bind (index d GPSGGA_IDX_SAT) (\<lambda>v_sattelites.
            Inr \<lparr>BaseGPS.data = d,
                 BaseGPS.receiver = BaseGPS.receiver b,
                 BaseGPS.type = BaseGPS.type b,
                 GPSGGA.time = v_time,
                 GPSGGA.lattitude = slice d (fst GPSGGA_IDX_LAT) (snd GPSGGA_IDX_LAT),
                 GPSGGA.longitude = slice d (fst GPSGGA_IDX_LONG) (snd GPSGGA_IDX_LONG),
                 GPSGGA.quality = v_quality,
                 GPSGGA.sattelites = v_sattelites,
                 GPSGGA.altitude = slice d (fst GPSGGA_IDX_ALT) (snd GPSGGA_IDX_ALT),
                 GPSGGA.checksum = snd (snd (rpartition frame (CHR ''*'')))\<rparr>)))))"

subsection \<open>GPSGLL\<close>

text \<open>
  The constructor ends with \<^verbatim>\<open>self.data = self.data[GPSGLL.IDX_DATA]\<close>: the attribute that
  held the field list now holds one field. The record therefore does not extend
  \<open>BaseGPS\<close>; its \<open>data\<close> is a string. The type test has the extra conjunct
  \<^verbatim>\<open>len(self.data) != 7\<close>.
\<close>

record GPSGLL =
  receiver :: string
  type :: string
  lattitude :: "string list"
  longitude :: "string list"
  time :: string
  data :: string

abbreviation (input) GPSGLL_TYPE :: string where "GPSGLL_TYPE \<equiv> ''GLL''"
abbreviation (input) GPSGLL_IDX_LAT :: "nat \<times> nat" where "GPSGLL_IDX_LAT \<equiv> (1, 3)"
abbreviation (input) GPSGLL_IDX_LONG :: "nat \<times> nat" where "GPSGLL_IDX_LONG \<equiv> (3, 5)"
abbreviation (input) GPSGLL_IDX_TIME :: nat where "GPSGLL_IDX_TIME \<equiv> 5"
abbreviation (input) GPSGLL_IDX_DATA :: nat where "GPSGLL_IDX_DATA \<equiv> 6"

definition GPSGLL_init :: "string \<Rightarrow> error + GPSGLL" where
  "GPSGLL_init frame =
     bind (BaseGPS_init frame) (\<lambda>b.
       if BaseGPS.type b \<notin> set FRAME_TYPE_keys \<and> length (BaseGPS.data b) \<noteq> 7
       then (if BaseGPS.type b \<noteq> GPSGLL_TYPE
             then Inl (GPSTypeError (''not '' @ GPSGLL_TYPE @ '' type''))
             else Inl (GPSFormatError (BaseGPS.type b @ '' type is not support'')))
       else
         (let d = BaseGPS.data b in
          bind (index d GPSGLL_IDX_TIME) (\<lambda>v_time.
          bind (index d GPSGLL_IDX_DATA) (\<lambda>v_data.
            Inr \<lparr>GPSGLL.receiver = BaseGPS.receiver b,
                 GPSGLL.type = BaseGPS.type b,
                 GPSGLL.lattitude = slice d (fst GPSGLL_IDX_LAT) (snd GPSGLL_IDX_LAT),
                 GPSGLL.longitude = slice d (fst GPSGLL_IDX_LONG) (snd GPSGLL_IDX_LONG),
                 GPSGLL.time = v_time,
                 GPSGLL.data = v_data\<rparr>))))"

subsection \<open>GPSGSA\<close>

text \<open>The attribute \<^verbatim>\<open>fix\<close> is the field \<open>fix'\<close>: \<open>fix\<close> is a reserved word here.\<close>

record GPSGSA = BaseGPS +
  mode :: string
  fix' :: string
  satellites :: "string list"
  pdop :: string
  hdop :: string
  vdop :: string
  checksum :: string

abbreviation (input) GPSGSA_TYPE :: string where "GPSGSA_TYPE \<equiv> ''GSA''"
abbreviation (input) GPSGSA_IDX_MODE :: nat where "GPSGSA_IDX_MODE \<equiv> 1"
abbreviation (input) GPSGSA_IDX_FIX :: nat where "GPSGSA_IDX_FIX \<equiv> 2"
abbreviation (input) GPSGSA_IDX_SAT_IDS :: "nat \<times> nat" where "GPSGSA_IDX_SAT_IDS \<equiv> (3, 15)"
abbreviation (input) GPSGSA_IDX_PDOP :: nat where "GPSGSA_IDX_PDOP \<equiv> 15"
abbreviation (input) GPSGSA_IDX_HDOP :: nat where "GPSGSA_IDX_HDOP \<equiv> 16"
abbreviation (input) GPSGSA_IDX_VDOP :: nat where "GPSGSA_IDX_VDOP \<equiv> 17"

definition GPSGSA_init :: "string \<Rightarrow> error + GPSGSA" where
  "GPSGSA_init frame =
     bind (BaseGPS_init frame) (\<lambda>b.
       if BaseGPS.type b \<notin> set FRAME_TYPE_keys
       then (if BaseGPS.type b \<noteq> GPSGSA_TYPE
             then Inl (GPSTypeError (''not '' @ GPSGSA_TYPE @ '' type''))
             else Inl (GPSFormatError (BaseGPS.type b @ '' type is not support'')))
       else
         (let d = BaseGPS.data b in
          bind (index d GPSGSA_IDX_MODE) (\<lambda>v_mode.
          bind (index d GPSGSA_IDX_FIX) (\<lambda>v_fix.
          bind (index d GPSGSA_IDX_PDOP) (\<lambda>v_pdop.
          bind (index d GPSGSA_IDX_HDOP) (\<lambda>v_hdop.
          bind (index d GPSGSA_IDX_VDOP) (\<lambda>v_vdop.
            Inr \<lparr>BaseGPS.data = d,
                 BaseGPS.receiver = BaseGPS.receiver b,
                 BaseGPS.type = BaseGPS.type b,
                 GPSGSA.mode = v_mode,
                 GPSGSA.fix' = v_fix,
                 GPSGSA.satellites = slice d (fst GPSGSA_IDX_SAT_IDS) (snd GPSGSA_IDX_SAT_IDS),
                 GPSGSA.pdop = v_pdop,
                 GPSGSA.hdop = v_hdop,
                 GPSGSA.vdop = v_vdop,
                 GPSGSA.checksum = snd (snd (rpartition frame (CHR ''*'')))\<rparr>)))))))"

subsection \<open>GPSGSV\<close>

text \<open>\<^verbatim>\<open>IDX_SIGN = 7\<close> is declared but the constructor never reads that position.\<close>

record GPSGSV = BaseGPS +
  total :: string
  current :: string
  satellites :: string
  first :: string
  elevation :: string
  azimuth :: string
  checksum :: string

abbreviation (input) GPSGSV_TYPE :: string where "GPSGSV_TYPE \<equiv> ''GSV''"
abbreviation (input) GPSGSV_IDX_NBRS :: nat where "GPSGSV_IDX_NBRS \<equiv> 1"
abbreviation (input) GPSGSV_IDX_CUR_NBR :: nat where "GPSGSV_IDX_CUR_NBR \<equiv> 2"
abbreviation (input) GPSGSV_IDX_SAT :: nat where "GPSGSV_IDX_SAT \<equiv> 3"
abbreviation (input) GPSGSV_IDX_FIRST_SAT_ID :: nat where "GPSGSV_IDX_FIRST_SAT_ID \<equiv> 4"
abbreviation (input) GPSGSV_IDX_ELEV :: nat where "GPSGSV_IDX_ELEV \<equiv> 5"
abbreviation (input) GPSGSV_IDX_AZIM :: nat where "GPSGSV_IDX_AZIM \<equiv> 6"
abbreviation (input) GPSGSV_IDX_SIGN :: nat where "GPSGSV_IDX_SIGN \<equiv> 7"

definition GPSGSV_init :: "string \<Rightarrow> error + GPSGSV" where
  "GPSGSV_init frame =
     bind (BaseGPS_init frame) (\<lambda>b.
       if BaseGPS.type b \<notin> set FRAME_TYPE_keys
       then (if BaseGPS.type b \<noteq> GPSGSV_TYPE
             then Inl (GPSTypeError (''not '' @ GPSGSV_TYPE @ '' type''))
             else Inl (GPSFormatError (BaseGPS.type b @ '' type is not support'')))
       else
         (let d = BaseGPS.data b in
          bind (index d GPSGSV_IDX_NBRS) (\<lambda>v_total.
          bind (index d GPSGSV_IDX_CUR_NBR) (\<lambda>v_current.
          bind (index d GPSGSV_IDX_SAT) (\<lambda>v_satellites.
          bind (index d GPSGSV_IDX_FIRST_SAT_ID) (\<lambda>v_first.
          bind (index d GPSGSV_IDX_ELEV) (\<lambda>v_elevation.
          bind (index d GPSGSV_IDX_AZIM) (\<lambda>v_azimuth.
            Inr \<lparr>BaseGPS.data = d,
                 BaseGPS.receiver = BaseGPS.receiver b,
                 BaseGPS.type = BaseGPS.type b,
                 GPSGSV.total = v_total,
                 GPSGSV.current = v_current,
                 GPSGSV.satellites = v_satellites,
                 GPSGSV.first = v_first,
                 GPSGSV.elevation = v_elevation,
                 GPSGSV.azimuth = v_azimuth,
                 GPSGSV.checksum = snd (snd (rpartition frame (CHR ''*'')))\<rparr>))))))))"

subsection \<open>GPSVTG\<close>

text \<open>
  The inner test of this constructor compares with \<^verbatim>\<open>GPSGGA.TYPE\<close> and its message names
  GGA, as in the source. The constructor reads slices only and stores no checksum.
\<close>

record GPSVTG = BaseGPS +
  dtrack :: "string list"
  mtrack :: "string list"
  nspeed :: "string list"
  kspeed :: "string list"

abbreviation (input) GPSVTG_TYPE :: string where "GPSVTG_TYPE \<equiv> ''VTG''"
abbreviation (input) GPSVTG_IDX_TRACK_DEG :: "nat \<times> nat" where "GPSVTG_IDX_TRACK_DEG \<equiv> (1, 3)"
abbreviation (input) GPSVTG_IDX_TRACK_MAGN :: "nat \<times> nat" where "GPSVTG_IDX_TRACK_MAGN \<equiv> (3, 5)"
abbreviation (input) GPSVTG_IDX_SPEED_KNOTS :: "nat \<times> nat" where "GPSVTG_IDX_SPEED_KNOTS \<equiv> (5, 7)"
abbreviation (input) GPSVTG_IDX_SPEED_KMH :: "nat \<times> nat" where "GPSVTG_IDX_SPEED_KMH \<equiv> (7, 9)"

definition GPSVTG_init :: "string \<Rightarrow> error + GPSVTG" where
  "GPSVTG_init frame =
     bind (BaseGPS_init frame) (\<lambda>b.
       if BaseGPS.type b \<notin> set FRAME_TYPE_keys
       then (if BaseGPS.type b \<noteq> GPSGGA_TYPE
             then Inl (GPSTypeError (''not '' @ GPSGGA_TYPE @ '' type''))
             else Inl (GPSFormatError (BaseGPS.type b @ '' type is not support'')))
       else
         (let d = BaseGPS.data b in
            Inr \<lparr>BaseGPS.data = d,
                 BaseGPS.receiver = BaseGPS.receiver b,
                 BaseGPS.type = BaseGPS.type b,
                 GPSVTG.dtrack = slice d (fst GPSVTG_IDX_TRACK_DEG) (snd GPSVTG_IDX_TRACK_DEG),
                 GPSVTG.mtrack = slice d (fst GPSVTG_IDX_TRACK_MAGN) (snd GPSVTG_IDX_TRACK_MAGN),
                 GPSVTG.nspeed = slice d (fst GPSVTG_IDX_SPEED_KNOTS) (snd GPSVTG_IDX_SPEED_KNOTS),
                 GPSVTG.kspeed = slice d (fst GPSVTG_IDX_SPEED_KMH) (snd GPSVTG_IDX_SPEED_KMH)\<rparr>))"

subsection \<open>GPSRMC\<close>

text \<open>The constructor's \<^verbatim>\<open>print(self.type)\<close> writes to standard output and is not modelled.\<close>

record GPSRMC = BaseGPS +
  hours :: string
  alert :: string
  latitude :: "string list"
  longitude :: "string list"
  speed :: string
  track :: string
  date :: string
  magnetic :: "string list"
  checksum :: string

abbreviation (input) GPSRMC_TYPE :: string where "GPSRMC_TYPE \<equiv> ''RMC''"
abbreviation (input) GPSRMC_IDX_HOUR :: nat where "GPSRMC_IDX_HOUR \<equiv> 1"
abbreviation (input) GPSRMC_IDX_ALERT :: nat where "GPSRMC_IDX_ALERT \<equiv> 2"
abbreviation (input) GPSRMC_IDX_LAT :: "nat \<times> nat" where "GPSRMC_IDX_LAT \<equiv> (3, 5)"
abbreviation (input) GPSRMC_IDX_LONG :: "nat \<times> nat" where "GPSRMC_IDX_LONG \<equiv> (5, 7)"
abbreviation (input) GPSRMC_IDX_SPEED_KNOTS :: nat where "GPSRMC_IDX_SPEED_KNOTS \<equiv> 7"
abbreviation (input) GPSRMC_IDX_TRACK :: nat where "GPSRMC_IDX_TRACK \<equiv> 8"
abbreviation (input) GPSRMC_IDX_DATE :: nat where "GPSRMC_IDX_DATE \<equiv> 9"
abbreviation (input) GPSRMC_IDX_MAGN :: "nat \<times> nat" where "GPSRMC_IDX_MAGN \<equiv> (10, 12)"

definition GPSRMC_init :: "string \<Rightarrow> error + GPSRMC" where
  "GPSRMC_init frame =
     bind (BaseGPS_init frame) (\<lambda>b.
       if BaseGPS.type b \<notin> set FRAME_TYPE_keys
       then (if BaseGPS.type b \<noteq> GPSRMC_TYPE
             then Inl (GPSTypeError (''not '' @ GPSRMC_TYPE @ '' type''))
             else Inl (GPSFormatError (BaseGPS.type b @ '' type is not support'')))
       else
         (let d = BaseGPS.data b in
          bind (index d GPSRMC_IDX_HOUR) (\<lambda>v_hours.
          bind (index d GPSRMC_IDX_ALERT) (\<lambda>v_alert.
          bind (index d GPSRMC_IDX_SPEED_KNOTS) (\<lambda>v_speed.
          bind (index d GPSRMC_IDX_TRACK) (\<lambda>v_track.
          bind (index d GPSRMC_IDX_DATE) (\<lambda>v_date.
            Inr \<lparr>BaseGPS.data = d,
                 BaseGPS.receiver = BaseGPS.receiver b,
                 BaseGPS.type = BaseGPS.type b,
                 GPSRMC.hours = v_hours,
                 GPSRMC.alert = v_alert,
                 GPSRMC.latitude = slice d (fst GPSRMC_IDX_LAT) (snd GPSRMC_IDX_LAT),
                 GPSRMC.longitude = slice d (fst GPSRMC_IDX_LONG) (snd GPSRMC_IDX_LONG),
                 GPSRMC.speed = v_speed,
                 GPSRMC.track = v_track,
                 GPSRMC.date = v_date,
                 GPSRMC.magnetic = slice d (fst GPSRMC_IDX_MAGN) (snd GPSRMC_IDX_MAGN),
                 GPSRMC.checksum = snd (snd (rpartition frame (CHR ''*'')))\<rparr>)))))))"

subsection \<open>GPS.getInstance\<close>

text \<open>
  \<^verbatim>\<open>GPS.CLASSES = inspect.getmembers(sys.modules[__name__], inspect.isclass)\<close> is evaluated
  inside the body of class \<^verbatim>\<open>GPS\<close>, so it lists the nine classes imported from gps.py,
  sorted by name, and not \<^verbatim>\<open>GPS\<close> itself. \<^verbatim>\<open>issubclass(c, BaseGPS)\<close> holds for
  \<^verbatim>\<open>BaseGPS\<close> itself and its six subclasses, not for the two exception classes.
  The result of \<open>getInstance\<close> is \<open>None\<close> when the loop ends without a \<^verbatim>\<open>return\<close>.
  run.py and nmea.py hold the same class \<^verbatim>\<open>GPS\<close>; run.py imports the nine classes from
  gps.py, nmea.py imports the same names from a module \<^verbatim>\<open>frames\<close>, and gps.py is taken for both.
  Its \<^verbatim>\<open>isinstance(frame, str)\<close> test is the type of the parameter here.
\<close>

datatype cls =
    C_BaseGPS | C_GPSFormatError | C_GPSGGA | C_GPSGLL | C_GPSGSA
  | C_GPSGSV | C_GPSRMC | C_GPSTypeError | C_GPSVTG

definition CLASSES :: "cls list" where
  "CLASSES = [C_BaseGPS, C_GPSFormatError, C_GPSGGA, C_GPSGLL, C_GPSGSA,
              C_GPSGSV, C_GPSRMC, C_GPSTypeError, C_GPSVTG]"

fun issubclass_BaseGPS :: "cls \<Rightarrow> bool" where
  "issubclass_BaseGPS C_GPSFormatError = False"
| "issubclass_BaseGPS C_GPSTypeError = False"
| "issubclass_BaseGPS c = True"

text \<open>The class attribute \<^verbatim>\<open>TYPE\<close>: \<^verbatim>\<open>""\<close> in \<^verbatim>\<open>BaseGPS\<close>, overridden by each subclass.
  The exception classes have no such attribute and the loop never asks for it.\<close>

fun cls_TYPE :: "cls \<Rightarrow> string" where
  "cls_TYPE C_GPSGGA = GPSGGA_TYPE"
| "cls_TYPE C_GPSGLL = GPSGLL_TYPE"
| "cls_TYPE C_GPSGSA = GPSGSA_TYPE"
| "cls_TYPE C_GPSGSV = GPSGSV_TYPE"
| "cls_TYPE C_GPSVTG = GPSVTG_TYPE"
| "cls_TYPE C_GPSRMC = GPSRMC_TYPE"
| "cls_TYPE c = []"

datatype gps_instance =
    I_BaseGPS BaseGPS
  | I_GPSGGA GPSGGA
  | I_GPSGLL GPSGLL
  | I_GPSGSA GPSGSA
  | I_GPSGSV GPSGSV
  | I_GPSRMC GPSRMC
  | I_GPSVTG GPSVTG

text \<open>
  \<^verbatim>\<open>clss[1](frame)\<close>, the constructor of the class. The loop calls it on \<^verbatim>\<open>BaseGPS\<close> and
  its subclasses only; the equation for the two exception classes is never used.
\<close>

fun construct :: "cls \<Rightarrow> string \<Rightarrow> error + gps_instance" where
  "construct C_GPSGGA frame = map_sum id I_GPSGGA (GPSGGA_init frame)"
| "construct C_GPSGLL frame = map_sum id I_GPSGLL (GPSGLL_init frame)"
| "construct C_GPSGSA frame = map_sum id I_GPSGSA (GPSGSA_init frame)"
| "construct C_GPSGSV frame = map_sum id I_GPSGSV (GPSGSV_init frame)"
| "construct C_GPSRMC frame = map_sum id I_GPSRMC (GPSRMC_init frame)"
| "construct C_GPSVTG frame = map_sum id I_GPSVTG (GPSVTG_init frame)"
| "construct c frame = map_sum id I_BaseGPS (BaseGPS_init frame)"

fun getInstance_loop :: "cls list \<Rightarrow> BaseGPS \<Rightarrow> string \<Rightarrow> error + gps_instance option" where
  "getInstance_loop [] base frame = Inr None"
| "getInstance_loop (c # cs) base frame =
     (if issubclass_BaseGPS c \<and> BaseGPS.type base = cls_TYPE c
      then map_sum id Some (construct c frame)
      else getInstance_loop cs base frame)"

definition getInstance :: "string \<Rightarrow> error + gps_instance option" where
  "getInstance frame =
     bind (BaseGPS_init frame) (\<lambda>base. getInstance_loop CLASSES base frame)"

section \<open>Facts about the primitives and the constructors\<close>

lemma str_split_not_Nil: "str_split s c \<noteq> []"
  by (induction s) (auto split: list.splits)

lemma BaseGPS_split_not_Nil: "BaseGPS_split frame \<noteq> []"
  by (simp add: BaseGPS_split_def Let_def str_split_not_Nil)

lemma rpartition_absent: "c \<notin> set s \<Longrightarrow> rpartition s c = ([], [], s)"
  by (simp add: rpartition_def)

lemma rpartition_last:
  assumes "c \<notin> set ys"
  shows "rpartition (xs @ c # ys) c = (xs, [c], ys)"
proof -
  have t: "takeWhile (\<lambda>x. x \<noteq> c) (rev ys @ c # rev xs) = rev ys"
    using assms by (auto simp: takeWhile_tail)
  have d: "dropWhile (\<lambda>x. x \<noteq> c) (rev ys @ c # rev xs) = c # rev xs"
    using assms by (auto simp: dropWhile_append3)
  show ?thesis by (simp add: rpartition_def t d)
qed

lemma BaseGPS_init_Nil: "BaseGPS_init [] = Inl IndexError"
  by (simp add: BaseGPS_init_def index_def)

lemma BaseGPS_init_no_dollar:
  "c \<noteq> CHR ''$'' \<Longrightarrow>
   BaseGPS_init (c # rest) = Inl (GPSFormatError (''Lenght error : '' @ str_nat (Suc (length rest))))"
  by (simp add: BaseGPS_init_def index_def)

lemma BaseGPS_init_dollar:
  "BaseGPS_init (CHR ''$'' # rest) =
     Inr \<lparr>BaseGPS.data = BaseGPS_split (CHR ''$'' # rest),
          BaseGPS.receiver = take 2 (hd (BaseGPS_split (CHR ''$'' # rest))),
          BaseGPS.type = take 3 (drop 2 (hd (BaseGPS_split (CHR ''$'' # rest))))\<rparr>"
  using BaseGPS_split_not_Nil [of "CHR ''$'' # rest"]
  by (simp add: BaseGPS_init_def index_def slice_def Let_def hd_conv_nth)

lemma GPSGGA_init_unknown:
  "BaseGPS_init frame = Inr b \<Longrightarrow> BaseGPS.type b \<notin> set FRAME_TYPE_keys \<Longrightarrow>
   GPSGGA_init frame = Inl (GPSTypeError ''not GGA type'')"
  by (auto simp add: GPSGGA_init_def bind_def FRAME_TYPE_keys_def)

lemma GPSVTG_init_unknown:
  "BaseGPS_init frame = Inr b \<Longrightarrow> BaseGPS.type b \<notin> set FRAME_TYPE_keys \<Longrightarrow>
   GPSVTG_init frame = Inl (GPSTypeError ''not GGA type'')"
  by (auto simp add: GPSVTG_init_def bind_def FRAME_TYPE_keys_def)

lemma GPSGGA_init_known:
  "BaseGPS_init frame = Inr b \<Longrightarrow> BaseGPS.type b \<in> set FRAME_TYPE_keys \<Longrightarrow>
   GPSGGA_init frame =
     (if length (BaseGPS.data b) < 8 then Inl IndexError
      else Inr \<lparr>BaseGPS.data = BaseGPS.data b,
                BaseGPS.receiver = BaseGPS.receiver b,
                BaseGPS.type = BaseGPS.type b,
                GPSGGA.time = BaseGPS.data b ! 1,
                GPSGGA.lattitude = take 2 (drop 2 (BaseGPS.data b)),
                GPSGGA.longitude = take 2 (drop 4 (BaseGPS.data b)),
                GPSGGA.quality = BaseGPS.data b ! 6,
                GPSGGA.sattelites = BaseGPS.data b ! 7,
                GPSGGA.altitude = take 2 (drop 8 (BaseGPS.data b)),
                GPSGGA.checksum = snd (snd (rpartition frame (CHR ''*'')))\<rparr>)"
  by (simp add: GPSGGA_init_def bind_def index_def slice_def Let_def)

lemma GPSGSA_init_known:
  "BaseGPS_init frame = Inr b \<Longrightarrow> BaseGPS.type b \<in> set FRAME_TYPE_keys \<Longrightarrow>
   GPSGSA_init frame =
     (if length (BaseGPS.data b) < 18 then Inl IndexError
      else Inr \<lparr>BaseGPS.data = BaseGPS.data b,
                BaseGPS.receiver = BaseGPS.receiver b,
                BaseGPS.type = BaseGPS.type b,
                GPSGSA.mode = BaseGPS.data b ! 1,
                GPSGSA.fix' = BaseGPS.data b ! 2,
                GPSGSA.satellites = take 12 (drop 3 (BaseGPS.data b)),
                GPSGSA.pdop = BaseGPS.data b ! 15,
                GPSGSA.hdop = BaseGPS.data b ! 16,
                GPSGSA.vdop = BaseGPS.data b ! 17,
                GPSGSA.checksum = snd (snd (rpartition frame (CHR ''*'')))\<rparr>)"
  by (simp add: GPSGSA_init_def bind_def index_def slice_def Let_def)

lemma GPSGLL_init_known:
  "BaseGPS_init frame = Inr b \<Longrightarrow>
   BaseGPS.type b \<in> set FRAME_TYPE_keys \<or> length (BaseGPS.data b) = 7 \<Longrightarrow>
   GPSGLL_init frame =
     (if length (BaseGPS.data b) < 7 then Inl IndexError
      else Inr \<lparr>GPSGLL.receiver = BaseGPS.receiver b,
                GPSGLL.type = BaseGPS.type b,
                GPSGLL.lattitude = take 2 (drop 1 (BaseGPS.data b)),
                GPSGLL.longitude = take 2 (drop 3 (BaseGPS.data b)),
                GPSGLL.time = BaseGPS.data b ! 5,
                GPSGLL.data = BaseGPS.data b ! 6\<rparr>)"
  by (auto simp add: GPSGLL_init_def bind_def index_def slice_def Let_def)

lemma GPSGSV_init_known:
  "BaseGPS_init frame = Inr b \<Longrightarrow> BaseGPS.type b \<in> set FRAME_TYPE_keys \<Longrightarrow>
   GPSGSV_init frame =
     (if length (BaseGPS.data b) < 7 then Inl IndexError
      else Inr \<lparr>BaseGPS.data = BaseGPS.data b,
                BaseGPS.receiver = BaseGPS.receiver b,
                BaseGPS.type = BaseGPS.type b,
                GPSGSV.total = BaseGPS.data b ! 1,
                GPSGSV.current = BaseGPS.data b ! 2,
                GPSGSV.satellites = BaseGPS.data b ! 3,
                GPSGSV.first = BaseGPS.data b ! 4,
                GPSGSV.elevation = BaseGPS.data b ! 5,
                GPSGSV.azimuth = BaseGPS.data b ! 6,
                GPSGSV.checksum = snd (snd (rpartition frame (CHR ''*'')))\<rparr>)"
  by (simp add: GPSGSV_init_def bind_def index_def slice_def Let_def)

lemma GPSRMC_init_known:
  "BaseGPS_init frame = Inr b \<Longrightarrow> BaseGPS.type b \<in> set FRAME_TYPE_keys \<Longrightarrow>
   GPSRMC_init frame =
     (if length (BaseGPS.data b) < 10 then Inl IndexError
      else Inr \<lparr>BaseGPS.data = BaseGPS.data b,
                BaseGPS.receiver = BaseGPS.receiver b,
                BaseGPS.type = BaseGPS.type b,
                GPSRMC.hours = BaseGPS.data b ! 1,
                GPSRMC.alert = BaseGPS.data b ! 2,
                GPSRMC.latitude = take 2 (drop 3 (BaseGPS.data b)),
                GPSRMC.longitude = take 2 (drop 5 (BaseGPS.data b)),
                GPSRMC.speed = BaseGPS.data b ! 7,
                GPSRMC.track = BaseGPS.data b ! 8,
                GPSRMC.date = BaseGPS.data b ! 9,
                GPSRMC.magnetic = take 2 (drop 10 (BaseGPS.data b)),
                GPSRMC.checksum = snd (snd (rpartition frame (CHR ''*'')))\<rparr>)"
  by (simp add: GPSRMC_init_def bind_def index_def slice_def Let_def)

lemma GPSVTG_init_known:
  "BaseGPS_init frame = Inr b \<Longrightarrow> BaseGPS.type b \<in> set FRAME_TYPE_keys \<Longrightarrow>
   GPSVTG_init frame =
     Inr \<lparr>BaseGPS.data = BaseGPS.data b,
          BaseGPS.receiver = BaseGPS.receiver b,
          BaseGPS.type = BaseGPS.type b,
          GPSVTG.dtrack = take 2 (drop 1 (BaseGPS.data b)),
          GPSVTG.mtrack = take 2 (drop 3 (BaseGPS.data b)),
          GPSVTG.nspeed = take 2 (drop 5 (BaseGPS.data b)),
          GPSVTG.kspeed = take 2 (drop 7 (BaseGPS.data b))\<rparr>"
  by (simp add: GPSVTG_init_def bind_def index_def slice_def Let_def)

lemma GPSGLL_init_unknown:
  "BaseGPS_init frame = Inr b \<Longrightarrow> BaseGPS.type b \<notin> set FRAME_TYPE_keys \<Longrightarrow>
   length (BaseGPS.data b) \<noteq> 7 \<Longrightarrow>
   GPSGLL_init frame = Inl (GPSTypeError ''not GLL type'')"
  by (auto simp add: GPSGLL_init_def bind_def FRAME_TYPE_keys_def)

lemma GPSGSA_init_unknown:
  "BaseGPS_init frame = Inr b \<Longrightarrow> BaseGPS.type b \<notin> set FRAME_TYPE_keys \<Longrightarrow>
   GPSGSA_init frame = Inl (GPSTypeError ''not GSA type'')"
  by (auto simp add: GPSGSA_init_def bind_def FRAME_TYPE_keys_def)

lemma GPSGSV_init_unknown:
  "BaseGPS_init frame = Inr b \<Longrightarrow> BaseGPS.type b \<notin> set FRAME_TYPE_keys \<Longrightarrow>
   GPSGSV_init frame = Inl (GPSTypeError ''not GSV type'')"
  by (auto simp add: GPSGSV_init_def bind_def FRAME_TYPE_keys_def)

lemma GPSRMC_init_unknown:
  "BaseGPS_init frame = Inr b \<Longrightarrow> BaseGPS.type b \<notin> set FRAME_TYPE_keys \<Longrightarrow>
   GPSRMC_init frame = Inl (GPSTypeError ''not RMC type'')"
  by (auto simp add: GPSRMC_init_def bind_def FRAME_TYPE_keys_def)

lemma getInstance_base:
  "BaseGPS_init frame = Inr b \<Longrightarrow> BaseGPS.type b = [] \<Longrightarrow>
   getInstance frame = Inr (Some (I_BaseGPS b))"
  by (simp add: getInstance_def bind_def CLASSES_def)

lemma getInstance_none:
  "BaseGPS_init frame = Inr b \<Longrightarrow> BaseGPS.type b \<notin> set FRAME_TYPE_keys \<Longrightarrow>
   BaseGPS.type b \<noteq> [] \<Longrightarrow> getInstance frame = Inr None"
  by (simp add: getInstance_def bind_def CLASSES_def FRAME_TYPE_keys_def)

lemma take2_drop: "i + 1 < length xs \<Longrightarrow> take 2 (drop i xs) = [xs ! i, xs ! (i + 1)]"
proof -
  assume a: "i + 1 < length xs"
  then have 1: "drop i xs = xs ! i # drop (Suc i) xs"
    by (simp add: Cons_nth_drop_Suc)
  from a have 2: "drop (Suc i) xs = xs ! Suc i # drop (Suc (Suc i)) xs"
    by (simp add: Cons_nth_drop_Suc)
  show ?thesis
    by (simp add: 1 2 numeral_2_eq_2)
qed

lemma no_dollar_FormatError:
  assumes "c \<noteq> CHR ''$''"
  shows "BaseGPS_init (c # rest) = Inl (GPSFormatError (''Lenght error : '' @ str_nat (Suc (length rest))))"
    and "GPSGGA_init (c # rest) = Inl (GPSFormatError (''Lenght error : '' @ str_nat (Suc (length rest))))"
    and "GPSGLL_init (c # rest) = Inl (GPSFormatError (''Lenght error : '' @ str_nat (Suc (length rest))))"
    and "GPSGSA_init (c # rest) = Inl (GPSFormatError (''Lenght error : '' @ str_nat (Suc (length rest))))"
    and "GPSGSV_init (c # rest) = Inl (GPSFormatError (''Lenght error : '' @ str_nat (Suc (length rest))))"
    and "GPSVTG_init (c # rest) = Inl (GPSFormatError (''Lenght error : '' @ str_nat (Suc (length rest))))"
    and "GPSRMC_init (c # rest) = Inl (GPSFormatError (''Lenght error : '' @ str_nat (Suc (length rest))))"
    and "getInstance (c # rest) = Inl (GPSFormatError (''Lenght error : '' @ str_nat (Suc (length rest))))"
  using assms
  by (simp_all add: BaseGPS_init_no_dollar GPSGGA_init_def GPSGLL_init_def GPSGSA_init_def
      GPSGSV_init_def GPSVTG_init_def GPSRMC_init_def getInstance_def bind_def)

lemma init_Inr_base:
  "GPSGGA_init frame = Inr g \<Longrightarrow> \<exists>b. BaseGPS_init frame = Inr b \<and> BaseGPS.type b \<in> set FRAME_TYPE_keys"
  "GPSGSA_init frame = Inr s \<Longrightarrow> \<exists>b. BaseGPS_init frame = Inr b \<and> BaseGPS.type b \<in> set FRAME_TYPE_keys"
  "GPSGSV_init frame = Inr v \<Longrightarrow> \<exists>b. BaseGPS_init frame = Inr b \<and> BaseGPS.type b \<in> set FRAME_TYPE_keys"
  "GPSRMC_init frame = Inr r \<Longrightarrow> \<exists>b. BaseGPS_init frame = Inr b \<and> BaseGPS.type b \<in> set FRAME_TYPE_keys"
  by (auto simp add: GPSGGA_init_def GPSGSA_init_def GPSGSV_init_def GPSRMC_init_def bind_def
      split: sum.splits if_splits)

lemma known_tag_not_TypeError:
  assumes "BaseGPS_init frame = Inr b" and "BaseGPS.type b \<in> set FRAME_TYPE_keys"
  shows "\<not> isTypeError (GPSGGA_init frame)" and "\<not> isTypeError (GPSGLL_init frame)"
    and "\<not> isTypeError (GPSGSA_init frame)" and "\<not> isTypeError (GPSGSV_init frame)"
    and "\<not> isTypeError (GPSVTG_init frame)" and "\<not> isTypeError (GPSRMC_init frame)"
  using assms
  by (simp_all add: GPSGGA_init_known GPSGLL_init_known GPSGSA_init_known GPSGSV_init_known
      GPSVTG_init_known GPSRMC_init_known)


section \<open>The claims\<close>

text \<open>
  Claim C1 (a decoder given a sentence of another type: a known tag is to give a type error,
  an unknown tag a format error). The constructors do otherwise, shown here on sentences:
  the GGA constructor on the GLL example passes the type test (GLL is a key of
  \<^verbatim>\<open>FRAME_TYPE\<close>) and fails later with \<^verbatim>\<open>IndexError\<close> at position 7; the VTG constructor
  on the same sentence returns a record; on the unknown tag XYZ both raise
  \<^verbatim>\<open>GPSTypeError\<close>, not \<^verbatim>\<open>GPSFormatError\<close>. The general facts are
  \<open>GPSGGA_init_unknown\<close> and its siblings and \<open>known_tag_not_TypeError\<close>.
\<close>

theorem decoder_type_check_examples:
  "GPSGGA_init ''$GPGLL,4807.038,N,01131.324,E,123519,1'' = Inl IndexError
   \<and> \<not> isTypeError (GPSGGA_init ''$GPGLL,4807.038,N,01131.324,E,123519,1'')
   \<and> GPSVTG_init ''$GPGLL,4807.038,N,01131.324,E,123519,1'' =
       Inr \<lparr>BaseGPS.data = [''GPGLL'', ''4807.038'', ''N'', ''01131.324'', ''E'', ''123519'', ''1''],
            BaseGPS.receiver = ''GP'',
            BaseGPS.type = ''GLL'',
            GPSVTG.dtrack = [''4807.038'', ''N''],
            GPSVTG.mtrack = [''01131.324'', ''E''],
            GPSVTG.nspeed = [''123519'', ''1''],
            GPSVTG.kspeed = []\<rparr>
   \<and> GPSGGA_init ''$GPXYZ,1,2'' = Inl (GPSTypeError ''not GGA type'')
   \<and> \<not> isFormatError (GPSGGA_init ''$GPXYZ,1,2'')
   \<and> GPSVTG_init ''$GPXYZ,1,2'' = Inl (GPSTypeError ''not GGA type'')"
  by code_simp

text \<open>
  Claim C2 (\<open>getInstance\<close> returns \<open>None\<close> for every tag outside the six), as stated, fails
  for the empty tag: \<^verbatim>\<open>BaseGPS\<close> is in \<^verbatim>\<open>CLASSES\<close> with \<^verbatim>\<open>TYPE = ""\<close>, so a frame with
  the empty type code gets a \<^verbatim>\<open>BaseGPS\<close> object.
\<close>

theorem getInstance_empty_tag_counterexample:
  "BaseGPS_init ''$GP,1'' = Inr \<lparr>BaseGPS.data = [''GP'', ''1''], BaseGPS.receiver = ''GP'', BaseGPS.type = ''''\<rparr>
   \<and> '''' \<notin> set FRAME_TYPE_keys
   \<and> getInstance ''$GP,1'' =
       Inr (Some (I_BaseGPS \<lparr>BaseGPS.data = [''GP'', ''1''], BaseGPS.receiver = ''GP'', BaseGPS.type = ''''\<rparr>))
   \<and> getInstance ''$GP,1'' \<noteq> Inr None"
  by code_simp

text \<open>
  Claim C2, amended: for every frame that starts with \<open>$\<close> and whose type code is not one
  of the six tags and not empty, \<open>getInstance\<close> returns \<open>None\<close> and raises nothing.
\<close>

theorem getInstance_unregistered_tag:
  "BaseGPS_init (CHR ''$'' # rest) = Inr b \<Longrightarrow> BaseGPS.type b \<notin> set FRAME_TYPE_keys \<Longrightarrow>
   BaseGPS.type b \<noteq> [] \<Longrightarrow> getInstance (CHR ''$'' # rest) = Inr None"
  by (rule getInstance_none)

theorem getInstance_unregistered_tag_witness:
  "BaseGPS_init ''$GPXYZ,1'' =
     Inr \<lparr>BaseGPS.data = [''GPXYZ'', ''1''], BaseGPS.receiver = ''GP'', BaseGPS.type = ''XYZ''\<rparr>
   \<and> ''XYZ'' \<notin> set FRAME_TYPE_keys \<and> ''XYZ'' \<noteq> []
   \<and> getInstance ''$GPXYZ,1'' = Inr None"
proof -
  have b: "BaseGPS_init (CHR ''$'' # ''GPXYZ,1'') =
     Inr \<lparr>BaseGPS.data = [''GPXYZ'', ''1''], BaseGPS.receiver = ''GP'', BaseGPS.type = ''XYZ''\<rparr>"
    by code_simp
  have k: "''XYZ'' \<notin> set FRAME_TYPE_keys" by (simp add: FRAME_TYPE_keys_def)
  from getInstance_unregistered_tag [OF b] k b show ?thesis by simp
qed

text \<open>
  Claim C3: \<open>getInstance\<close> on the GGA example sentence of the source returns a GGA record
  with time 123519, latitude (4807.038, N), longitude (01131.324, E), quality 1,
  satellites 08, altitude (545.4, M) and checksum 42; its header is receiver GP, type GGA.
\<close>

theorem getInstance_GGA_example:
  "getInstance ''$GPGGA,123519,4807.038,N,01131.324,E,1,08,545.4,M,46.9,M,,*42'' =
    Inr (Some (I_GPSGGA
      \<lparr>BaseGPS.data = [''GPGGA'', ''123519'', ''4807.038'', ''N'', ''01131.324'', ''E'', ''1'',
                        ''08'', ''545.4'', ''M'', ''46.9'', ''M'', '''', ''''],
       BaseGPS.receiver = ''GP'',
       BaseGPS.type = ''GGA'',
       GPSGGA.time = ''123519'',
       GPSGGA.lattitude = [''4807.038'', ''N''],
       GPSGGA.longitude = [''01131.324'', ''E''],
       GPSGGA.quality = ''1'',
       GPSGGA.sattelites = ''08'',
       GPSGGA.altitude = [''545.4'', ''M''],
       GPSGGA.checksum = ''42''\<rparr>))"
  by code_simp

text \<open>
  Claim C4: splitting does not see the checksum. For a body without \<open>*\<close>, appending
  \<open>*\<close> and a checksum (which has no \<open>*\<close> in it) does not change the field list; the
  frames \<^verbatim>\<open>$GPGGA,1,2*42\<close> and \<^verbatim>\<open>$GPGGA,1,2\<close> both split into GPGGA, 1, 2.
\<close>

theorem split_checksum_agnostic:
  "(CHR ''*'' \<notin> set body \<and> CHR ''*'' \<notin> set cs \<longrightarrow>
      BaseGPS_split (body @ CHR ''*'' # cs) = BaseGPS_split body)
   \<and> BaseGPS_split ''$GPGGA,1,2*42'' = [''GPGGA'', ''1'', ''2'']
   \<and> BaseGPS_split ''$GPGGA,1,2'' = [''GPGGA'', ''1'', ''2'']"
proof (intro conjI impI)
  assume a: "CHR ''*'' \<notin> set body \<and> CHR ''*'' \<notin> set cs"
  then have "rpartition (body @ CHR ''*'' # cs) (CHR ''*'') = (body, ''*'', cs)"
    by (simp add: rpartition_last)
  then show "BaseGPS_split (body @ CHR ''*'' # cs) = BaseGPS_split body"
    using a by (simp add: BaseGPS_split_def)
next
  show "BaseGPS_split ''$GPGGA,1,2*42'' = [''GPGGA'', ''1'', ''2'']"
    by code_simp
next
  show "BaseGPS_split ''$GPGGA,1,2'' = [''GPGGA'', ''1'', ''2'']"
    by code_simp
qed

theorem split_checksum_agnostic_witness:
  "CHR ''*'' \<notin> set ''$GPGSV,2,1,08'' \<and> CHR ''*'' \<notin> set ''75''
   \<and> BaseGPS_split (''$GPGSV,2,1,08'' @ CHR ''*'' # ''75'') = BaseGPS_split ''$GPGSV,2,1,08''
   \<and> BaseGPS_split ''$GPGSV,2,1,08'' = [''GPGSV'', ''2'', ''1'', ''08'']"
proof -
  have h: "CHR ''*'' \<notin> set ''$GPGSV,2,1,08'' \<and> CHR ''*'' \<notin> set ''75''" by simp
  have v: "BaseGPS_split ''$GPGSV,2,1,08'' = [''GPGSV'', ''2'', ''1'', ''08'']" by code_simp
  from split_checksum_agnostic [of "''$GPGSV,2,1,08''" "''75''"] h v show ?thesis by blast
qed

text \<open>
  Claim C5 (header extraction fails with a format error when the first field has fewer than
  five characters), as stated, fails: the two slices of \<^verbatim>\<open>BaseGPS.__init__\<close> never raise.
  The frame \<^verbatim>\<open>$GP,1\<close> has the first field GP and gets receiver GP and the empty type.
\<close>

theorem header_short_field_counterexample:
  "hd (BaseGPS_split ''$GP,1'') = ''GP'' \<and> length ''GP'' < 5
   \<and> BaseGPS_init ''$GP,1'' = Inr \<lparr>BaseGPS.data = [''GP'', ''1''], BaseGPS.receiver = ''GP'', BaseGPS.type = ''''\<rparr>
   \<and> \<not> isFormatError (BaseGPS_init ''$GP,1'')"
  by code_simp

text \<open>
  Claim C5, amended: for every frame that starts with \<open>$\<close>, the receiver is characters
  [0,2) and the type is characters [2,5) of the first field, each cut to the characters
  that exist; header extraction does not fail on a short first field.
\<close>

theorem header_extraction:
  "BaseGPS_init (CHR ''$'' # rest) =
     Inr \<lparr>BaseGPS.data = BaseGPS_split (CHR ''$'' # rest),
          BaseGPS.receiver = take 2 (hd (BaseGPS_split (CHR ''$'' # rest))),
          BaseGPS.type = take 3 (drop 2 (hd (BaseGPS_split (CHR ''$'' # rest))))\<rparr>
   \<and> \<not> isFormatError (BaseGPS_init (CHR ''$'' # rest))"
  by (simp add: BaseGPS_init_dollar)

text \<open>
  Claim C6 (a sentence of the decoder's own type with too few fields fails with a format
  error), as stated, fails: the GGA constructor on \<^verbatim>\<open>$GPGGA,1\<close> raises \<^verbatim>\<open>IndexError\<close>.
\<close>

theorem truncated_GGA_counterexample:
  "BaseGPS_init ''$GPGGA,1'' =
     Inr \<lparr>BaseGPS.data = [''GPGGA'', ''1''], BaseGPS.receiver = ''GP'', BaseGPS.type = ''GGA''\<rparr>
   \<and> length [''GPGGA'', ''1''] < 10
   \<and> GPSGGA_init ''$GPGGA,1'' = Inl IndexError
   \<and> \<not> isFormatError (GPSGGA_init ''$GPGGA,1'')"
  by code_simp

text \<open>
  Claim C6, amended: for a sentence accepted by the splitter whose type code is the
  decoder's tag, the decoder raises \<^verbatim>\<open>IndexError\<close> when the field list is too short for
  a position it reads by index (fewer than 8 fields for GGA, 7 for GLL, 18 for GSA, 7 for
  GSV, 10 for RMC) and otherwise returns the record read at the decoder's positions, every
  range field being cut to the fields that exist; VTG reads ranges only and always returns
  such a record. The theorem gives the whole record of each decoder.
\<close>

theorem truncated_sentence_index_fault:
  assumes "BaseGPS_init frame = Inr b"
  shows "(BaseGPS.type b = ''GGA'' \<longrightarrow>
            GPSGGA_init frame =
              (if length (BaseGPS.data b) < 8 then Inl IndexError
               else Inr \<lparr>BaseGPS.data = BaseGPS.data b,
                         BaseGPS.receiver = BaseGPS.receiver b,
                         BaseGPS.type = BaseGPS.type b,
                         GPSGGA.time = BaseGPS.data b ! 1,
                         GPSGGA.lattitude = take 2 (drop 2 (BaseGPS.data b)),
                         GPSGGA.longitude = take 2 (drop 4 (BaseGPS.data b)),
                         GPSGGA.quality = BaseGPS.data b ! 6,
                         GPSGGA.sattelites = BaseGPS.data b ! 7,
                         GPSGGA.altitude = take 2 (drop 8 (BaseGPS.data b)),
                         GPSGGA.checksum = snd (snd (rpartition frame (CHR ''*'')))\<rparr>))
       \<and> (BaseGPS.type b = ''GLL'' \<longrightarrow>
            GPSGLL_init frame =
              (if length (BaseGPS.data b) < 7 then Inl IndexError
               else Inr \<lparr>GPSGLL.receiver = BaseGPS.receiver b,
                         GPSGLL.type = BaseGPS.type b,
                         GPSGLL.lattitude = take 2 (drop 1 (BaseGPS.data b)),
                         GPSGLL.longitude = take 2 (drop 3 (BaseGPS.data b)),
                         GPSGLL.time = BaseGPS.data b ! 5,
                         GPSGLL.data = BaseGPS.data b ! 6\<rparr>))
       \<and> (BaseGPS.type b = ''GSA'' \<longrightarrow>
            GPSGSA_init frame =
              (if length (BaseGPS.data b) < 18 then Inl IndexError
               else Inr \<lparr>BaseGPS.data = BaseGPS.data b,
                         BaseGPS.receiver = BaseGPS.receiver b,
                         BaseGPS.type = BaseGPS.type b,
                         GPSGSA.mode = BaseGPS.data b ! 1,
                         GPSGSA.fix' = BaseGPS.data b ! 2,
                         GPSGSA.satellites = take 12 (drop 3 (BaseGPS.data b)),
                         GPSGSA.pdop = BaseGPS.data b ! 15,
                         GPSGSA.hdop = BaseGPS.data b ! 16,
                         GPSGSA.vdop = BaseGPS.data b ! 17,
                         GPSGSA.checksum = snd (snd (rpartition frame (CHR ''*'')))\<rparr>))
       \<and> (BaseGPS.type b = ''GSV'' \<longrightarrow>
            GPSGSV_init frame =
              (if length (BaseGPS.data b) < 7 then Inl IndexError
               else Inr \<lparr>BaseGPS.data = BaseGPS.data b,
                         BaseGPS.receiver = BaseGPS.receiver b,
                         BaseGPS.type = BaseGPS.type b,
                         GPSGSV.total = BaseGPS.data b ! 1,
                         GPSGSV.current = BaseGPS.data b ! 2,
                         GPSGSV.satellites = BaseGPS.data b ! 3,
                         GPSGSV.first = BaseGPS.data b ! 4,
                         GPSGSV.elevation = BaseGPS.data b ! 5,
                         GPSGSV.azimuth = BaseGPS.data b ! 6,
                         GPSGSV.checksum = snd (snd (rpartition frame (CHR ''*'')))\<rparr>))
       \<and> (BaseGPS.type b = ''VTG'' \<longrightarrow>
            GPSVTG_init frame =
              Inr \<lparr>BaseGPS.data = BaseGPS.data b,
                   BaseGPS.receiver = BaseGPS.receiver b,
                   BaseGPS.type = BaseGPS.type b,
                   GPSVTG.dtrack = take 2 (drop 1 (BaseGPS.data b)),
                   GPSVTG.mtrack = take 2 (drop 3 (BaseGPS.data b)),
                   GPSVTG.nspeed = take 2 (drop 5 (BaseGPS.data b)),
                   GPSVTG.kspeed = take 2 (drop 7 (BaseGPS.data b))\<rparr>)
       \<and> (BaseGPS.type b = ''RMC'' \<longrightarrow>
            GPSRMC_init frame =
              (if length (BaseGPS.data b) < 10 then Inl IndexError
               else Inr \<lparr>BaseGPS.data = BaseGPS.data b,
                         BaseGPS.receiver = BaseGPS.receiver b,
                         BaseGPS.type = BaseGPS.type b,
                         GPSRMC.hours = BaseGPS.data b ! 1,
                         GPSRMC.alert = BaseGPS.data b ! 2,
                         GPSRMC.latitude = take 2 (drop 3 (BaseGPS.data b)),
                         GPSRMC.longitude = take 2 (drop 5 (BaseGPS.data b)),
                         GPSRMC.speed = BaseGPS.data b ! 7,
                         GPSRMC.track = BaseGPS.data b ! 8,
                         GPSRMC.date = BaseGPS.data b ! 9,
                         GPSRMC.magnetic = take 2 (drop 10 (BaseGPS.data b)),
                         GPSRMC.checksum = snd (snd (rpartition frame (CHR ''*'')))\<rparr>))"
proof -
  have gga: "BaseGPS.type b = ''GGA'' \<Longrightarrow> BaseGPS.type b \<in> set FRAME_TYPE_keys"
    and gll: "BaseGPS.type b = ''GLL'' \<Longrightarrow> BaseGPS.type b \<in> set FRAME_TYPE_keys"
    and gsa: "BaseGPS.type b = ''GSA'' \<Longrightarrow> BaseGPS.type b \<in> set FRAME_TYPE_keys"
    and gsv: "BaseGPS.type b = ''GSV'' \<Longrightarrow> BaseGPS.type b \<in> set FRAME_TYPE_keys"
    and vtg: "BaseGPS.type b = ''VTG'' \<Longrightarrow> BaseGPS.type b \<in> set FRAME_TYPE_keys"
    and rmc: "BaseGPS.type b = ''RMC'' \<Longrightarrow> BaseGPS.type b \<in> set FRAME_TYPE_keys"
    by (simp_all add: FRAME_TYPE_keys_def)
  show ?thesis
  proof (intro conjI impI)
    assume "BaseGPS.type b = ''GGA''"
    then show "GPSGGA_init frame =
              (if length (BaseGPS.data b) < 8 then Inl IndexError
               else Inr \<lparr>BaseGPS.data = BaseGPS.data b,
                         BaseGPS.receiver = BaseGPS.receiver b,
                         BaseGPS.type = BaseGPS.type b,
                         GPSGGA.time = BaseGPS.data b ! 1,
                         GPSGGA.lattitude = take 2 (drop 2 (BaseGPS.data b)),
                         GPSGGA.longitude = take 2 (drop 4 (BaseGPS.data b)),
                         GPSGGA.quality = BaseGPS.data b ! 6,
                         GPSGGA.sattelites = BaseGPS.data b ! 7,
                         GPSGGA.altitude = take 2 (drop 8 (BaseGPS.data b)),
                         GPSGGA.checksum = snd (snd (rpartition frame (CHR ''*'')))\<rparr>)"
      by (rule GPSGGA_init_known [OF assms gga])
  next
    assume "BaseGPS.type b = ''GLL''"
    then have "BaseGPS.type b \<in> set FRAME_TYPE_keys \<or> length (BaseGPS.data b) = 7"
      using gll by blast
    then show "GPSGLL_init frame =
              (if length (BaseGPS.data b) < 7 then Inl IndexError
               else Inr \<lparr>GPSGLL.receiver = BaseGPS.receiver b,
                         GPSGLL.type = BaseGPS.type b,
                         GPSGLL.lattitude = take 2 (drop 1 (BaseGPS.data b)),
                         GPSGLL.longitude = take 2 (drop 3 (BaseGPS.data b)),
                         GPSGLL.time = BaseGPS.data b ! 5,
                         GPSGLL.data = BaseGPS.data b ! 6\<rparr>)"
      by (rule GPSGLL_init_known [OF assms])
  next
    assume "BaseGPS.type b = ''GSA''"
    then show "GPSGSA_init frame =
              (if length (BaseGPS.data b) < 18 then Inl IndexError
               else Inr \<lparr>BaseGPS.data = BaseGPS.data b,
                         BaseGPS.receiver = BaseGPS.receiver b,
                         BaseGPS.type = BaseGPS.type b,
                         GPSGSA.mode = BaseGPS.data b ! 1,
                         GPSGSA.fix' = BaseGPS.data b ! 2,
                         GPSGSA.satellites = take 12 (drop 3 (BaseGPS.data b)),
                         GPSGSA.pdop = BaseGPS.data b ! 15,
                         GPSGSA.hdop = BaseGPS.data b ! 16,
                         GPSGSA.vdop = BaseGPS.data b ! 17,
                         GPSGSA.checksum = snd (snd (rpartition frame (CHR ''*'')))\<rparr>)"
      by (rule GPSGSA_init_known [OF assms gsa])
  next
    assume "BaseGPS.type b = ''GSV''"
    then show "GPSGSV_init frame =
              (if length (BaseGPS.data b) < 7 then Inl IndexError
               else Inr \<lparr>BaseGPS.data = BaseGPS.data b,
                         BaseGPS.receiver = BaseGPS.receiver b,
                         BaseGPS.type = BaseGPS.type b,
                         GPSGSV.total = BaseGPS.data b ! 1,
                         GPSGSV.current = BaseGPS.data b ! 2,
                         GPSGSV.satellites = BaseGPS.data b ! 3,
                         GPSGSV.first = BaseGPS.data b ! 4,
                         GPSGSV.elevation = BaseGPS.data b ! 5,
                         GPSGSV.azimuth = BaseGPS.data b ! 6,
                         GPSGSV.checksum = snd (snd (rpartition frame (CHR ''*'')))\<rparr>)"
      by (rule GPSGSV_init_known [OF assms gsv])
  next
    assume "BaseGPS.type b = ''VTG''"
    then show "GPSVTG_init frame =
              Inr \<lparr>BaseGPS.data = BaseGPS.data b,
                   BaseGPS.receiver = BaseGPS.receiver b,
                   BaseGPS.type = BaseGPS.type b,
                   GPSVTG.dtrack = take 2 (drop 1 (BaseGPS.data b)),
                   GPSVTG.mtrack = take 2 (drop 3 (BaseGPS.data b)),
                   GPSVTG.nspeed = take 2 (drop 5 (BaseGPS.data b)),
                   GPSVTG.kspeed = take 2 (drop 7 (BaseGPS.data b))\<rparr>"
      by (rule GPSVTG_init_known [OF assms vtg])
  next
    assume "BaseGPS.type b = ''RMC''"
    then show "GPSRMC_init frame =
              (if length (BaseGPS.data b) < 10 then Inl IndexError
               else Inr \<lparr>BaseGPS.data = BaseGPS.data b,
                         BaseGPS.receiver = BaseGPS.receiver b,
                         BaseGPS.type = BaseGPS.type b,
                         GPSRMC.hours = BaseGPS.data b ! 1,
                         GPSRMC.alert = BaseGPS.data b ! 2,
                         GPSRMC.latitude = take 2 (drop 3 (BaseGPS.data b)),
                         GPSRMC.longitude = take 2 (drop 5 (BaseGPS.data b)),
                         GPSRMC.speed = BaseGPS.data b ! 7,
                         GPSRMC.track = BaseGPS.data b ! 8,
                         GPSRMC.date = BaseGPS.data b ! 9,
                         GPSRMC.magnetic = take 2 (drop 10 (BaseGPS.data b)),
                         GPSRMC.checksum = snd (snd (rpartition frame (CHR ''*'')))\<rparr>)"
      by (rule GPSRMC_init_known [OF assms rmc])
  qed
qed

theorem truncated_sentence_index_fault_witness:
  "BaseGPS_init ''$GPGGA,1'' =
     Inr \<lparr>BaseGPS.data = [''GPGGA'', ''1''], BaseGPS.receiver = ''GP'', BaseGPS.type = ''GGA''\<rparr>
   \<and> GPSGGA_init ''$GPGGA,1'' = Inl IndexError
   \<and> BaseGPS_init ''$GPGLL,4807.038,N,01131.324'' =
     Inr \<lparr>BaseGPS.data = [''GPGLL'', ''4807.038'', ''N'', ''01131.324''],
          BaseGPS.receiver = ''GP'', BaseGPS.type = ''GLL''\<rparr>
   \<and> GPSGLL_init ''$GPGLL,4807.038,N,01131.324'' = Inl IndexError
   \<and> BaseGPS_init ''$GPGSA,A,3'' =
     Inr \<lparr>BaseGPS.data = [''GPGSA'', ''A'', ''3''], BaseGPS.receiver = ''GP'', BaseGPS.type = ''GSA''\<rparr>
   \<and> GPSGSA_init ''$GPGSA,A,3'' = Inl IndexError
   \<and> BaseGPS_init ''$GPGSV,2,1'' =
     Inr \<lparr>BaseGPS.data = [''GPGSV'', ''2'', ''1''], BaseGPS.receiver = ''GP'', BaseGPS.type = ''GSV''\<rparr>
   \<and> GPSGSV_init ''$GPGSV,2,1'' = Inl IndexError
   \<and> BaseGPS_init ''$GPVTG,054.7,T,034.4'' =
     Inr \<lparr>BaseGPS.data = [''GPVTG'', ''054.7'', ''T'', ''034.4''],
          BaseGPS.receiver = ''GP'', BaseGPS.type = ''VTG''\<rparr>
   \<and> GPSVTG_init ''$GPVTG,054.7,T,034.4'' =
     Inr \<lparr>BaseGPS.data = [''GPVTG'', ''054.7'', ''T'', ''034.4''],
          BaseGPS.receiver = ''GP'', BaseGPS.type = ''VTG'',
          GPSVTG.dtrack = [''054.7'', ''T''], GPSVTG.mtrack = [''034.4''],
          GPSVTG.nspeed = [], GPSVTG.kspeed = []\<rparr>
   \<and> BaseGPS_init ''$GPRMC,225446,A,4916.45,N,12311.12,W,000.5,054.7,191194,020.3'' =
     Inr \<lparr>BaseGPS.data = [''GPRMC'', ''225446'', ''A'', ''4916.45'', ''N'', ''12311.12'', ''W'',
                          ''000.5'', ''054.7'', ''191194'', ''020.3''],
          BaseGPS.receiver = ''GP'', BaseGPS.type = ''RMC''\<rparr>
   \<and> GPSRMC_init ''$GPRMC,225446,A,4916.45,N,12311.12,W,000.5,054.7,191194,020.3'' =
     Inr \<lparr>BaseGPS.data = [''GPRMC'', ''225446'', ''A'', ''4916.45'', ''N'', ''12311.12'', ''W'',
                          ''000.5'', ''054.7'', ''191194'', ''020.3''],
          BaseGPS.receiver = ''GP'', BaseGPS.type = ''RMC'',
          GPSRMC.hours = ''225446'', GPSRMC.alert = ''A'',
          GPSRMC.latitude = [''4916.45'', ''N''], GPSRMC.longitude = [''12311.12'', ''W''],
          GPSRMC.speed = ''000.5'', GPSRMC.track = ''054.7'', GPSRMC.date = ''191194'',
          GPSRMC.magnetic = [''020.3''],
          GPSRMC.checksum = ''$GPRMC,225446,A,4916.45,N,12311.12,W,000.5,054.7,191194,020.3''\<rparr>"
proof -
  have gga: "BaseGPS_init ''$GPGGA,1'' =
     Inr \<lparr>BaseGPS.data = [''GPGGA'', ''1''], BaseGPS.receiver = ''GP'', BaseGPS.type = ''GGA''\<rparr>"
    by code_simp
  have gll: "BaseGPS_init ''$GPGLL,4807.038,N,01131.324'' =
     Inr \<lparr>BaseGPS.data = [''GPGLL'', ''4807.038'', ''N'', ''01131.324''],
          BaseGPS.receiver = ''GP'', BaseGPS.type = ''GLL''\<rparr>"
    by code_simp
  have gsa: "BaseGPS_init ''$GPGSA,A,3'' =
     Inr \<lparr>BaseGPS.data = [''GPGSA'', ''A'', ''3''], BaseGPS.receiver = ''GP'', BaseGPS.type = ''GSA''\<rparr>"
    by code_simp
  have gsv: "BaseGPS_init ''$GPGSV,2,1'' =
     Inr \<lparr>BaseGPS.data = [''GPGSV'', ''2'', ''1''], BaseGPS.receiver = ''GP'', BaseGPS.type = ''GSV''\<rparr>"
    by code_simp
  have vtg: "BaseGPS_init ''$GPVTG,054.7,T,034.4'' =
     Inr \<lparr>BaseGPS.data = [''GPVTG'', ''054.7'', ''T'', ''034.4''],
          BaseGPS.receiver = ''GP'', BaseGPS.type = ''VTG''\<rparr>"
    by code_simp
  have rmc: "BaseGPS_init ''$GPRMC,225446,A,4916.45,N,12311.12,W,000.5,054.7,191194,020.3'' =
     Inr \<lparr>BaseGPS.data = [''GPRMC'', ''225446'', ''A'', ''4916.45'', ''N'', ''12311.12'', ''W'',
                          ''000.5'', ''054.7'', ''191194'', ''020.3''],
          BaseGPS.receiver = ''GP'', BaseGPS.type = ''RMC''\<rparr>"
    by code_simp
  have cs: "snd (snd (rpartition ''$GPRMC,225446,A,4916.45,N,12311.12,W,000.5,054.7,191194,020.3''
                        (CHR ''*''))) =
            ''$GPRMC,225446,A,4916.45,N,12311.12,W,000.5,054.7,191194,020.3''"
    by (simp add: rpartition_absent)
  have 1: "GPSGGA_init ''$GPGGA,1'' = Inl IndexError"
    using truncated_sentence_index_fault [OF gga] by simp
  have 2: "GPSGLL_init ''$GPGLL,4807.038,N,01131.324'' = Inl IndexError"
    using truncated_sentence_index_fault [OF gll] by simp
  have 3: "GPSGSA_init ''$GPGSA,A,3'' = Inl IndexError"
    using truncated_sentence_index_fault [OF gsa] by simp
  have 4: "GPSGSV_init ''$GPGSV,2,1'' = Inl IndexError"
    using truncated_sentence_index_fault [OF gsv] by simp
  have 5: "GPSVTG_init ''$GPVTG,054.7,T,034.4'' =
     Inr \<lparr>BaseGPS.data = [''GPVTG'', ''054.7'', ''T'', ''034.4''],
          BaseGPS.receiver = ''GP'', BaseGPS.type = ''VTG'',
          GPSVTG.dtrack = [''054.7'', ''T''], GPSVTG.mtrack = [''034.4''],
          GPSVTG.nspeed = [], GPSVTG.kspeed = []\<rparr>"
    using truncated_sentence_index_fault [OF vtg] by simp
  have 6: "GPSRMC_init ''$GPRMC,225446,A,4916.45,N,12311.12,W,000.5,054.7,191194,020.3'' =
     Inr \<lparr>BaseGPS.data = [''GPRMC'', ''225446'', ''A'', ''4916.45'', ''N'', ''12311.12'', ''W'',
                          ''000.5'', ''054.7'', ''191194'', ''020.3''],
          BaseGPS.receiver = ''GP'', BaseGPS.type = ''RMC'',
          GPSRMC.hours = ''225446'', GPSRMC.alert = ''A'',
          GPSRMC.latitude = [''4916.45'', ''N''], GPSRMC.longitude = [''12311.12'', ''W''],
          GPSRMC.speed = ''000.5'', GPSRMC.track = ''054.7'', GPSRMC.date = ''191194'',
          GPSRMC.magnetic = [''020.3''],
          GPSRMC.checksum = ''$GPRMC,225446,A,4916.45,N,12311.12,W,000.5,054.7,191194,020.3''\<rparr>"
    using truncated_sentence_index_fault [OF rmc] cs by simp
  from gga gll gsa gsv vtg rmc 1 2 3 4 5 6 show ?thesis by blast
qed

text \<open>
  Claim C7 (every string that does not begin with \<open>$\<close> gives a format error). The empty
  string does not begin with \<open>$\<close>, and \<^verbatim>\<open>frame[0]\<close> raises \<^verbatim>\<open>IndexError\<close> on it before the
  comparison: the base constructor, the six decoders and \<open>getInstance\<close> all raise
  \<^verbatim>\<open>IndexError\<close>. For a non-empty string the claim holds (\<open>no_dollar_FormatError\<close>).
\<close>

theorem empty_frame_IndexError:
  "BaseGPS_init [] = Inl IndexError
   \<and> GPSGGA_init [] = Inl IndexError
   \<and> GPSGLL_init [] = Inl IndexError
   \<and> GPSGSA_init [] = Inl IndexError
   \<and> GPSGSV_init [] = Inl IndexError
   \<and> GPSVTG_init [] = Inl IndexError
   \<and> GPSRMC_init [] = Inl IndexError
   \<and> getInstance [] = Inl IndexError"
  by (simp add: BaseGPS_init_Nil GPSGGA_init_def GPSGLL_init_def GPSGSA_init_def
      GPSGSV_init_def GPSVTG_init_def GPSRMC_init_def getInstance_def bind_def)

text \<open>
  Claim C8: for a frame without \<open>*\<close> that the GGA, GSA, GSV or RMC constructor decodes,
  the checksum field of the record is the whole frame.
\<close>

theorem checksum_without_star:
  assumes "CHR ''*'' \<notin> set frame"
  shows "(GPSGGA_init frame = Inr g \<longrightarrow> GPSGGA.checksum g = frame)
       \<and> (GPSGSA_init frame = Inr s \<longrightarrow> GPSGSA.checksum s = frame)
       \<and> (GPSGSV_init frame = Inr v \<longrightarrow> GPSGSV.checksum v = frame)
       \<and> (GPSRMC_init frame = Inr r \<longrightarrow> GPSRMC.checksum r = frame)"
proof -
  have p: "snd (snd (rpartition frame (CHR ''*''))) = frame"
    using assms by (simp add: rpartition_absent)
  have gga: "GPSGGA.checksum g = frame" if a: "GPSGGA_init frame = Inr g"
  proof -
    from init_Inr_base(1) [OF a] obtain b where
      b: "BaseGPS_init frame = Inr b" "BaseGPS.type b \<in> set FRAME_TYPE_keys" by blast
    from a GPSGGA_init_known [OF b] p show ?thesis
      by (cases "length (BaseGPS.data b) < 8") auto
  qed
  have gsa: "GPSGSA.checksum s = frame" if a: "GPSGSA_init frame = Inr s"
  proof -
    from init_Inr_base(2) [OF a] obtain b where
      b: "BaseGPS_init frame = Inr b" "BaseGPS.type b \<in> set FRAME_TYPE_keys" by blast
    from a GPSGSA_init_known [OF b] p show ?thesis
      by (cases "length (BaseGPS.data b) < 18") auto
  qed
  have gsv: "GPSGSV.checksum v = frame" if a: "GPSGSV_init frame = Inr v"
  proof -
    from init_Inr_base(3) [OF a] obtain b where
      b: "BaseGPS_init frame = Inr b" "BaseGPS.type b \<in> set FRAME_TYPE_keys" by blast
    from a GPSGSV_init_known [OF b] p show ?thesis
      by (cases "length (BaseGPS.data b) < 7") auto
  qed
  have rmc: "GPSRMC.checksum r = frame" if a: "GPSRMC_init frame = Inr r"
  proof -
    from init_Inr_base(4) [OF a] obtain b where
      b: "BaseGPS_init frame = Inr b" "BaseGPS.type b \<in> set FRAME_TYPE_keys" by blast
    from a GPSRMC_init_known [OF b] p show ?thesis
      by (cases "length (BaseGPS.data b) < 10") auto
  qed
  from gga gsa gsv rmc show ?thesis by blast
qed

theorem checksum_without_star_witness:
  "CHR ''*'' \<notin> set ''$GPGSA,A,3,04,05,,09,12,,,24,,,,,2.5,1.3,2.1''
   \<and> (\<exists>g. GPSGGA_init ''$GPGSA,A,3,04,05,,09,12,,,24,,,,,2.5,1.3,2.1'' = Inr g
          \<and> GPSGGA.checksum g = ''$GPGSA,A,3,04,05,,09,12,,,24,,,,,2.5,1.3,2.1'')
   \<and> (\<exists>s. GPSGSA_init ''$GPGSA,A,3,04,05,,09,12,,,24,,,,,2.5,1.3,2.1'' = Inr s
          \<and> GPSGSA.checksum s = ''$GPGSA,A,3,04,05,,09,12,,,24,,,,,2.5,1.3,2.1'')
   \<and> (\<exists>v. GPSGSV_init ''$GPGSA,A,3,04,05,,09,12,,,24,,,,,2.5,1.3,2.1'' = Inr v
          \<and> GPSGSV.checksum v = ''$GPGSA,A,3,04,05,,09,12,,,24,,,,,2.5,1.3,2.1'')
   \<and> (\<exists>r. GPSRMC_init ''$GPGSA,A,3,04,05,,09,12,,,24,,,,,2.5,1.3,2.1'' = Inr r
          \<and> GPSRMC.checksum r = ''$GPGSA,A,3,04,05,,09,12,,,24,,,,,2.5,1.3,2.1'')"
proof -
  let ?F = "''$GPGSA,A,3,04,05,,09,12,,,24,,,,,2.5,1.3,2.1''"
  have h: "CHR ''*'' \<notin> set ?F" by simp
  have "\<not> isl (GPSGGA_init ?F)" by code_simp
  then obtain g where g: "GPSGGA_init ?F = Inr g" by (cases "GPSGGA_init ?F") auto
  have "\<not> isl (GPSGSA_init ?F)" by code_simp
  then obtain s where s: "GPSGSA_init ?F = Inr s" by (cases "GPSGSA_init ?F") auto
  have "\<not> isl (GPSGSV_init ?F)" by code_simp
  then obtain v where v: "GPSGSV_init ?F = Inr v" by (cases "GPSGSV_init ?F") auto
  have "\<not> isl (GPSRMC_init ?F)" by code_simp
  then obtain r where r: "GPSRMC_init ?F = Inr r" by (cases "GPSRMC_init ?F") auto
  from checksum_without_star [OF h, of g s v r] g s v r h show ?thesis by blast
qed

text \<open>
  Claim C9: for a frame that starts with \<open>$\<close> and whose first field has at most two
  characters, \<open>getInstance\<close> returns a \<^verbatim>\<open>BaseGPS\<close> object (the field list, the receiver,
  which is the whole first field, and the empty type), not \<open>None\<close>.
\<close>

theorem getInstance_empty_tag:
  "length (hd (BaseGPS_split (CHR ''$'' # rest))) \<le> 2 \<Longrightarrow>
   getInstance (CHR ''$'' # rest) =
     Inr (Some (I_BaseGPS \<lparr>BaseGPS.data = BaseGPS_split (CHR ''$'' # rest),
                           BaseGPS.receiver = hd (BaseGPS_split (CHR ''$'' # rest)),
                           BaseGPS.type = []\<rparr>))"
  using getInstance_base [OF BaseGPS_init_dollar [of rest]] by simp

theorem getInstance_empty_tag_witness:
  "length (hd (BaseGPS_split ''$G,7'')) \<le> 2
   \<and> getInstance ''$G,7'' =
       Inr (Some (I_BaseGPS \<lparr>BaseGPS.data = [''G'', ''7''], BaseGPS.receiver = ''G'', BaseGPS.type = []\<rparr>))"
proof -
  have s: "BaseGPS_split (CHR ''$'' # ''G,7'') = [''G'', ''7'']" by code_simp
  then have h: "length (hd (BaseGPS_split (CHR ''$'' # ''G,7''))) \<le> 2" by simp
  from getInstance_empty_tag [OF h] s h show ?thesis by simp
qed

text \<open>
  Claim C10: for a sentence accepted by the splitter whose type code is not one of the six
  tags and whose field list has exactly seven fields, the GLL constructor raises nothing
  and returns the record read at the GLL positions.
\<close>

theorem GPSGLL_init_seven_fields:
  "BaseGPS_init frame = Inr b \<Longrightarrow> BaseGPS.type b \<notin> set FRAME_TYPE_keys \<Longrightarrow>
   length (BaseGPS.data b) = 7 \<Longrightarrow>
   GPSGLL_init frame =
     Inr \<lparr>GPSGLL.receiver = BaseGPS.receiver b,
          GPSGLL.type = BaseGPS.type b,
          GPSGLL.lattitude = [BaseGPS.data b ! 1, BaseGPS.data b ! 2],
          GPSGLL.longitude = [BaseGPS.data b ! 3, BaseGPS.data b ! 4],
          GPSGLL.time = BaseGPS.data b ! 5,
          GPSGLL.data = BaseGPS.data b ! 6\<rparr>"
proof -
  assume b: "BaseGPS_init frame = Inr b" and n: "length (BaseGPS.data b) = 7"
  have two: "Suc (Suc 0) = 2" by simp
  have lat: "take 2 (drop (Suc 0) (BaseGPS.data b)) = [BaseGPS.data b ! Suc 0, BaseGPS.data b ! 2]"
    using take2_drop [of "Suc 0" "BaseGPS.data b"] n by (simp add: two)
  have long: "take 2 (drop 3 (BaseGPS.data b)) = [BaseGPS.data b ! 3, BaseGPS.data b ! 4]"
    using take2_drop [of 3 "BaseGPS.data b"] n by simp
  show ?thesis
    using n by (simp add: GPSGLL_init_known [OF b] lat long)
qed

theorem GPSGLL_init_seven_fields_witness:
  "BaseGPS_init ''$GPXYZ,4807.038,N,01131.324,E,123519,A'' =
     Inr \<lparr>BaseGPS.data = [''GPXYZ'', ''4807.038'', ''N'', ''01131.324'', ''E'', ''123519'', ''A''],
          BaseGPS.receiver = ''GP'', BaseGPS.type = ''XYZ''\<rparr>
   \<and> ''XYZ'' \<notin> set FRAME_TYPE_keys
   \<and> length [''GPXYZ'', ''4807.038'', ''N'', ''01131.324'', ''E'', ''123519'', ''A''] = 7
   \<and> GPSGLL_init ''$GPXYZ,4807.038,N,01131.324,E,123519,A'' =
       Inr \<lparr>GPSGLL.receiver = ''GP'', GPSGLL.type = ''XYZ'',
            GPSGLL.lattitude = [''4807.038'', ''N''],
            GPSGLL.longitude = [''01131.324'', ''E''],
            GPSGLL.time = ''123519'', GPSGLL.data = ''A''\<rparr>"
proof -
  have b: "BaseGPS_init ''$GPXYZ,4807.038,N,01131.324,E,123519,A'' =
     Inr \<lparr>BaseGPS.data = [''GPXYZ'', ''4807.038'', ''N'', ''01131.324'', ''E'', ''123519'', ''A''],
          BaseGPS.receiver = ''GP'', BaseGPS.type = ''XYZ''\<rparr>"
    by code_simp
  have k: "''XYZ'' \<notin> set FRAME_TYPE_keys" by (simp add: FRAME_TYPE_keys_def)
  from GPSGLL_init_seven_fields [OF b] k b show ?thesis by simp
qed

end
